theory Spec2Isabelle
  imports Complex_Main "HOL-Library.AList" "HOL-Library.Sublist"
begin

section \<open>ReconX: a shallow embedding of reconx.py\<close>

text \<open>
  The program loads probe modules by name, runs each one under a shared option set,
  records per module either a success or a failure, prints the outcomes and optionally
  writes them to a file. Everything it obtains from outside (the import machinery, the
  modules' own \<^verbatim>\<open>run\<close> functions, the wall clock, the colour library, the file system,
  Python's formatting of floats and of arbitrary values) is a parameter of the model.
  The outside world is a state of an arbitrary type \<open>'w\<close> that every external call may
  read and change; the values modules return are of an arbitrary type \<open>'v\<close>.

  Strings are lists of characters with code points below 256. Timestamps are real
  numbers, an idealisation of Python's binary floating point.
\<close>

subsection \<open>Exceptions\<close>

text \<open>
  An exception is known to the program by its class and by \<^verbatim>\<open>str(e)\<close>. The model covers
  instances of \<^verbatim>\<open>Exception\<close>, which is what every \<^verbatim>\<open>except Exception\<close> of the source
  intercepts.
\<close>

datatype py_exception = PyExc (exc_class: string) (exc_str: string)

definition quote :: "string \<Rightarrow> string" where
  "quote s = [CHR 0x27] @ s @ [CHR 0x27]"

subsection \<open>String methods\<close>

text \<open>\<^verbatim>\<open>str.isspace\<close> on one character, for the code points below 256.\<close>

definition py_isspace :: "char \<Rightarrow> bool" where
  "py_isspace c =
     (let n = (of_char c :: nat)
      in (9 \<le> n \<and> n \<le> 13) \<or> (28 \<le> n \<and> n \<le> 32) \<or> n = 133 \<or> n = 160)"

text \<open>\<^verbatim>\<open>s.strip()\<close>: leading and trailing whitespace removed.\<close>

definition strip :: "string \<Rightarrow> string" where
  "strip s = rev (dropWhile py_isspace (rev (dropWhile py_isspace s)))"

text \<open>\<^verbatim>\<open>s.split(c)\<close> for a one-character separator: never the empty list.\<close>

fun split_on :: "char \<Rightarrow> string \<Rightarrow> string list" where
  "split_on c [] = [[]]"
| "split_on c (x # xs) =
     (if x = c then [] # split_on c xs
      else (case split_on c xs of
              [] \<Rightarrow> [[x]]
            | w # ws \<Rightarrow> (x # w) # ws))"

text \<open>\<^verbatim>\<open>sep.join(xs)\<close>.\<close>

fun join :: "string \<Rightarrow> string list \<Rightarrow> string" where
  "join sep [] = []"
| "join sep [x] = x"
| "join sep (x # y # ys) = x @ sep @ join sep (y # ys)"

subsection \<open>Rounding\<close>

text \<open>
  \<^verbatim>\<open>round(x, n)\<close> rounds to \<open>n\<close> decimal places, ties to the even neighbour.
\<close>

definition round_half_even :: "real \<Rightarrow> int" where
  "round_half_even x =
     (let f = \<lfloor>x\<rfloor>; d = x - of_int f
      in if d < 1 / 2 then f
         else if 1 / 2 < d then f + 1
         else if even f then f else f + 1)"

definition py_round :: "real \<Rightarrow> nat \<Rightarrow> real" where
  "py_round x n = of_int (round_half_even (x * 10 ^ n)) / 10 ^ n"

subsection \<open>Data\<close>

text \<open>The namespace \<^verbatim>\<open>argparse\<close> returns (\<^verbatim>\<open>parse_args\<close>, lines 28 to 38).\<close>

record args =
  arg_target :: string
  arg_modules :: string
  arg_timeout :: real
  arg_output :: "string option"
  arg_top_ports :: int
  arg_no_color :: bool
  arg_quiet :: bool

text \<open>The dictionary handed to a module: \<^verbatim>\<open>{"timeout": ..., "top_ports": ...}\<close>.\<close>

record options =
  timeout :: real
  top_ports :: int

text \<open>
  A loaded module, seen through \<^verbatim>\<open>getattr(mod, "run", None)\<close>: the attribute is absent,
  or present and not callable, or a function of the target and the options that returns
  a value or raises, and may change the world.
\<close>

datatype ('w, 'v) run_attr =
    NotCallable
  | Callable "string \<Rightarrow> options \<Rightarrow> 'w \<Rightarrow> (py_exception + 'v) \<times> 'w"

datatype ('w, 'v) py_module = Module (run_of: "('w, 'v) run_attr option")

text \<open>
  One entry of \<^verbatim>\<open>results\<close>: \<open>Failure m\<close> is the dictionary \<^verbatim>\<open>{"error": m}\<close>,
  \<open>Success e d\<close> is \<^verbatim>\<open>{"elapsed": e, "data": d}\<close>.
\<close>

datatype 'v payload = Failure string | Success real 'v

text \<open>What the dispatcher needs from outside: the importer and the wall clock.\<close>

record ('w, 'v) env =
  import_module :: "string \<Rightarrow> 'w \<Rightarrow> (py_exception + ('w, 'v) py_module) \<times> 'w"
  time_time :: "'w \<Rightarrow> real \<times> 'w"

text \<open>
  The calls the dispatcher makes, in the order it makes them: \<open>Load n\<close> for
  \<^verbatim>\<open>load_module_by_name(n)\<close>, \<open>Invoke n t opts\<close> for the call \<^verbatim>\<open>run_fn(t, opts)\<close>
  made while handling the name \<open>n\<close>.
\<close>

datatype event = Load string | Invoke string string options

text \<open>The names loaded, and the names whose \<^verbatim>\<open>run\<close> was called, in the order of the log.\<close>

fun loads :: "event list \<Rightarrow> string list" where
  "loads [] = []"
| "loads (Load n # es) = n # loads es"
| "loads (Invoke n t opts # es) = loads es"


text \<open>
  The state of the loop of \<^verbatim>\<open>run_modules\<close>: the dictionary \<^verbatim>\<open>results\<close> (in insertion
  order, as Python keeps it), the world, and the log of calls made so far.
\<close>

record ('w, 'v) run_state =
  results :: "(string \<times> 'v payload) list"
  world :: 'w
  calls :: "event list"

subsection \<open>The registry and the loader\<close>

definition AVAILABLE_MODULES :: "(string \<times> string) list" where
  "AVAILABLE_MODULES =
     [(''dns'', ''modules.dns_lookup''),
      (''whois'', ''modules.whois_lookup''),
      (''headers'', ''modules.headers''),
      (''portscan'', ''modules.portscan'')]"

text \<open>\<^verbatim>\<open>load_module_by_name\<close>, lines 51 to 58.\<close>

definition load_module_by_name ::
  "('w, 'v) env \<Rightarrow> string \<Rightarrow> 'w \<Rightarrow> (py_exception + ('w, 'v) py_module) \<times> 'w" where
  "load_module_by_name e name w =
     (case map_of AVAILABLE_MODULES name of
        None \<Rightarrow> (Inl (PyExc ''ValueError'' (''Unknown module '' @ quote name)), w)
      | Some mod_path \<Rightarrow>
          (case import_module e mod_path w of
             (Inr m, w') \<Rightarrow> (Inr m, w')
           | (Inl ex, w') \<Rightarrow>
               (Inl (PyExc ''ImportError''
                  (''Failed to import module '' @ quote name @ '' ('' @ mod_path @ ''): ''
                   @ exc_str ex)), w')))"

subsection \<open>The dispatcher\<close>

text \<open>
  The body of the loop of \<^verbatim>\<open>run_modules\<close>, lines 63 to 84, for one requested name.
  An assignment \<^verbatim>\<open>results[name] = p\<close> replaces the value of an existing key in place
  and appends a new key at the end. A \<^verbatim>\<open>run\<close> that is absent and one that is present
  and not callable both fail the test of line 73.
\<close>

definition loop_body ::
  "('w, 'v) env \<Rightarrow> string \<Rightarrow> args \<Rightarrow> string \<Rightarrow> ('w, 'v) run_state \<Rightarrow> ('w, 'v) run_state" where
  "loop_body e target a raw s =
     (let name = strip raw in
      if name = [] then s
      else
        (case load_module_by_name e name (world s) of
           (Inl ex, w1) \<Rightarrow>
             \<lparr>results = AList.update name (Failure (exc_str ex)) (results s),
              world = w1,
              calls = calls s @ [Load name]\<rparr>
         | (Inr m, w1) \<Rightarrow>
             (case run_of m of
                None \<Rightarrow>
                  \<lparr>results =
                     AList.update name (Failure ''module missing run(target, options) function'')
                       (results s),
                   world = w1,
                   calls = calls s @ [Load name]\<rparr>
              | Some NotCallable \<Rightarrow>
                  \<lparr>results =
                     AList.update name (Failure ''module missing run(target, options) function'')
                       (results s),
                   world = w1,
                   calls = calls s @ [Load name]\<rparr>
              | Some (Callable run_fn) \<Rightarrow>
                  (let (start, w2) = time_time e w1;
                       opts = \<lparr>timeout = arg_timeout a, top_ports = arg_top_ports a\<rparr>
                   in case run_fn target opts w2 of
                        (Inr res, w3) \<Rightarrow>
                          (let (stop, w4) = time_time e w3;
                               elapsed = stop - start
                           in \<lparr>results =
                                 AList.update name (Success (py_round elapsed 2) res) (results s),
                               world = w4,
                               calls = calls s @ [Load name, Invoke name target opts]\<rparr>)
                      | (Inl ex, w3) \<Rightarrow>
                          \<lparr>results = AList.update name (Failure (exc_str ex)) (results s),
                           world = w3,
                           calls = calls s @ [Load name, Invoke name target opts]\<rparr>))))"

fun for_names ::
  "('w, 'v) env \<Rightarrow> string \<Rightarrow> args \<Rightarrow> string list \<Rightarrow> ('w, 'v) run_state \<Rightarrow> ('w, 'v) run_state" where
  "for_names e target a [] s = s"
| "for_names e target a (raw # rest) s = for_names e target a rest (loop_body e target a raw s)"

text \<open>
  \<^verbatim>\<open>run_modules\<close>, lines 60 to 85. The source returns \<^verbatim>\<open>results\<close>; the model returns
  the whole final state, of which \<open>results\<close> is one field.
\<close>

definition run_modules ::
  "('w, 'v) env \<Rightarrow> string \<Rightarrow> string list \<Rightarrow> args \<Rightarrow> 'w \<Rightarrow> ('w, 'v) run_state" where
  "run_modules e target module_names a w =
     for_names e target a module_names \<lparr>results = [], world = w, calls = []\<rparr>"

text \<open>The names the loop acts on: trimmed, blanks left out, in request order.\<close>

definition requested :: "string list \<Rightarrow> string list" where
  "requested module_names = filter (\<lambda>n. n \<noteq> []) (map strip module_names)"

subsection \<open>Console output\<close>

text \<open>
  \<^verbatim>\<open>Fore\<close> and \<^verbatim>\<open>Style\<close> are objects read by attribute name; reading an attribute an
  object does not have raises \<^verbatim>\<open>AttributeError\<close>. Lines 8 to 19 bind them to the colour
  library's objects when its import succeeds, and to instances of the fallback class
  \<^verbatim>\<open>_C\<close> otherwise. The library's objects are a parameter.
\<close>

type_synonym namespace = "(string \<times> string) list"

definition getattr :: "namespace \<Rightarrow> string \<Rightarrow> py_exception + string" where
  "getattr obj name =
     (case map_of obj name of
        Some v \<Rightarrow> Inr v
      | None \<Rightarrow> Inl (PyExc ''AttributeError'' (''object has no attribute '' @ quote name)))"

text \<open>The class \<^verbatim>\<open>_C\<close> of lines 13 to 17 and of lines 92 to 96.\<close>

definition fallback_C :: namespace where
  "fallback_C = [(''RESET'', []), (''GREEN'', []), (''YELLOW'', []), (''RED'', [])]"

record palette =
  Fore :: namespace
  Style :: namespace

text \<open>
  What \<^verbatim>\<open>main\<close> needs from outside besides the dispatcher's environment: the colour
  library (\<open>None\<close> when importing it fails), Python's text for a float and for a module's
  value, the items of a value that is a dictionary (\<open>None\<close> when it is not one), the
  write of the report document to a path, and the resolution of a path.
\<close>

record 'v report =
  doc_target :: string
  doc_modules :: "string list"
  doc_results :: "(string \<times> 'v payload) list"

record ('w, 'v) host =
  colorama :: "palette option"
  str_float :: "real \<Rightarrow> string"
  str_value :: "'v \<Rightarrow> string"
  dict_items :: "'v \<Rightarrow> ('v \<times> 'v) list option"
  json_dump :: "string \<Rightarrow> 'v report \<Rightarrow> 'w \<Rightarrow> py_exception option \<times> 'w"
  resolve :: "string \<Rightarrow> py_exception + string"

definition initial_palette :: "('w, 'v) host \<Rightarrow> palette" where
  "initial_palette h =
     (case colorama h of
        Some p \<Rightarrow> p
      | None \<Rightarrow> \<lparr>Fore = fallback_C, Style = fallback_C\<rparr>)"

text \<open>The attributes the program reads are all present in a palette.\<close>

definition palette_complete :: "palette \<Rightarrow> bool" where
  "palette_complete pal =
     (map_of (Fore pal) ''GREEN'' \<noteq> None \<and> map_of (Fore pal) ''YELLOW'' \<noteq> None \<and>
      map_of (Fore pal) ''RED'' \<noteq> None \<and> map_of (Style pal) ''RESET_ALL'' \<noteq> None)"

text \<open>
  Printing: a computation yields the lines it has printed, and then a value or the
  exception that stopped it.
\<close>

datatype out_line = Stdout string | Stderr string

fun is_stdout :: "out_line \<Rightarrow> bool" where
  "is_stdout (Stdout s) = True"
| "is_stdout (Stderr s) = False"

type_synonym 'a io = "out_line list \<times> (py_exception + 'a)"

definition return_io :: "'a \<Rightarrow> 'a io" where
  "return_io x = ([], Inr x)"

definition lift_io :: "py_exception + 'a \<Rightarrow> 'a io" where
  "lift_io r = ([], r)"

definition print :: "string \<Rightarrow> unit io" where
  "print s = ([Stdout s], Inr ())"

definition print_stderr :: "string \<Rightarrow> unit io" where
  "print_stderr s = ([Stderr s], Inr ())"

definition bind_io :: "'a io \<Rightarrow> ('a \<Rightarrow> 'b io) \<Rightarrow> 'b io" where
  "bind_io m f =
     (case m of
        (out1, Inl ex) \<Rightarrow> (out1, Inl ex)
      | (out1, Inr x) \<Rightarrow> (case f x of (out2, r) \<Rightarrow> (out1 @ out2, r)))"

text \<open>The loop of lines 46 and 47 over the items of a dictionary.\<close>

fun print_items ::
  "palette \<Rightarrow> ('w, 'v) host \<Rightarrow> bool \<Rightarrow> ('v \<times> 'v) list \<Rightarrow> unit io" where
  "print_items pal h no_color [] = return_io ()"
| "print_items pal h no_color ((k, v) # rest) =
     bind_io (if \<not> no_color then lift_io (getattr (Fore pal) ''YELLOW'') else return_io [])
       (\<lambda>yellow.
     bind_io (if \<not> no_color then lift_io (getattr (Style pal) ''RESET_ALL'') else return_io [])
       (\<lambda>reset.
     bind_io (print (yellow @ str_value h k @ '':'' @ reset @ '' '' @ str_value h v))
       (\<lambda>_. print_items pal h no_color rest)))"

text \<open>
  \<^verbatim>\<open>pretty_print_section\<close>, lines 40 to 49. The data is a string (an error message) or
  a module's value.
\<close>

definition pretty_print_section ::
  "palette \<Rightarrow> ('w, 'v) host \<Rightarrow> string \<Rightarrow> string + 'v \<Rightarrow> bool \<Rightarrow> unit io" where
  "pretty_print_section pal h title data no_color =
     bind_io
       (if \<not> no_color
        then bind_io (lift_io (getattr (Fore pal) ''GREEN'')) (\<lambda>green.
             bind_io (lift_io (getattr (Style pal) ''RESET_ALL'')) (\<lambda>reset.
             return_io (green @ title @ reset)))
        else return_io title)
       (\<lambda>c_title.
     bind_io (print []) (\<lambda>_.
     bind_io (print c_title) (\<lambda>_.
     bind_io (print (replicate (length title) CHR ''-'')) (\<lambda>_.
       (case data of
          Inl text \<Rightarrow> print text
        | Inr v \<Rightarrow>
            (case dict_items h v of
               Some items \<Rightarrow> print_items pal h no_color items
             | None \<Rightarrow> print (str_value h v)))))))"

subsection \<open>The main program\<close>

text \<open>Line 99: the requested names, split at commas, trimmed, blanks left out.\<close>

definition parse_modules :: "string \<Rightarrow> string list" where
  "parse_modules s = map strip (filter (\<lambda>m. strip m \<noteq> []) (split_on CHR '','' s))"

text \<open>Lines 100 to 104.\<close>

definition print_header :: "palette \<Rightarrow> ('w, 'v) host \<Rightarrow> args \<Rightarrow> string list \<Rightarrow> unit io" where
  "print_header pal h a modules =
     bind_io (lift_io (getattr (Fore pal) ''GREEN'')) (\<lambda>green.
     bind_io (lift_io (getattr (Style pal) ''RESET_ALL'')) (\<lambda>reset.
     bind_io (print (green @ ''\<newline>=== ReconX v1.0 ===\<newline>'' @ reset)) (\<lambda>_.
     bind_io (print (''Target: '' @ arg_target a)) (\<lambda>_.
     bind_io (print (''Modules: '' @ join '', '' modules)) (\<lambda>_.
       if \<not> arg_quiet a
       then print (''Timeout: '' @ str_float h (arg_timeout a) @ ''s\<newline>'')
       else return_io ())))))"

text \<open>\<^verbatim>\<open>results.get(mod, {"error": "no result"})\<close>, line 110.\<close>

definition results_get :: "(string \<times> 'v payload) list \<Rightarrow> string \<Rightarrow> 'v payload" where
  "results_get res m = (case map_of res m of Some p \<Rightarrow> p | None \<Rightarrow> Failure ''no result'')"

text \<open>The body of the display loop, lines 110 to 114, and the loop, line 109.\<close>

definition render_one ::
  "palette \<Rightarrow> ('w, 'v) host \<Rightarrow> bool \<Rightarrow> (string \<times> 'v payload) list \<Rightarrow> string \<Rightarrow> unit io" where
  "render_one pal h no_color res m =
     (case results_get res m of
        Failure msg \<Rightarrow>
          pretty_print_section pal h (''['' @ m @ ''] ERROR'') (Inl msg) no_color
      | Success elapsed d \<Rightarrow>
          pretty_print_section pal h
            (''['' @ m @ ''] (elapsed: '' @ str_float h elapsed @ ''s)'') (Inr d) no_color)"

fun render_results ::
  "palette \<Rightarrow> ('w, 'v) host \<Rightarrow> bool \<Rightarrow> (string \<times> 'v payload) list \<Rightarrow> string list \<Rightarrow> unit io" where
  "render_results pal h no_color res [] = return_io ()"
| "render_results pal h no_color res (m # rest) =
     bind_io (render_one pal h no_color res m) (\<lambda>_. render_results pal h no_color res rest)"

text \<open>
  Lines 117 to 124: the optional write of the report. An empty path counts as none
  given. Whatever the write or the resolution of the path raises is reported on the
  error stream.
\<close>

definition report_failure :: "palette \<Rightarrow> py_exception \<Rightarrow> unit io" where
  "report_failure pal ex =
     bind_io (lift_io (getattr (Fore pal) ''RED'')) (\<lambda>red.
     bind_io (lift_io (getattr (Style pal) ''RESET_ALL'')) (\<lambda>reset.
       print_stderr (red @ ''Failed to write output file: '' @ exc_str ex @ reset)))"

definition write_output ::
  "palette \<Rightarrow> ('w, 'v) host \<Rightarrow> args \<Rightarrow> string list \<Rightarrow> (string \<times> 'v payload) list \<Rightarrow> 'w
     \<Rightarrow> unit io \<times> 'w" where
  "write_output pal h a modules res w =
     (case arg_output a of
        None \<Rightarrow> (return_io (), w)
      | Some path \<Rightarrow>
          if path = [] then (return_io (), w)
          else
            (case json_dump h path
                    \<lparr>doc_target = arg_target a, doc_modules = modules, doc_results = res\<rparr> w of
               (Some ex, w') \<Rightarrow> (report_failure pal ex, w')
             | (None, w') \<Rightarrow>
                 (case resolve h path of
                    Inl ex \<Rightarrow> (report_failure pal ex, w')
                  | Inr full \<Rightarrow> (print (''\<newline>Report written to '' @ full), w'))))"

text \<open>
  \<^verbatim>\<open>main\<close>, lines 87 to 124, after \<^verbatim>\<open>parse_args\<close>. The result holds what was printed,
  the exception that ended the program if one did, and the final world.
\<close>

record 'w main_result =
  printed :: "out_line list"
  raised :: "py_exception option"
  final_world :: 'w

definition main :: "('w, 'v) env \<Rightarrow> ('w, 'v) host \<Rightarrow> args \<Rightarrow> 'w \<Rightarrow> 'w main_result" where
  "main e h a w =
     (let pal = (if arg_no_color a then \<lparr>Fore = fallback_C, Style = fallback_C\<rparr>
                 else initial_palette h);
          modules = parse_modules (arg_modules a)
      in case print_header pal h a modules of
           (out1, Inl ex) \<Rightarrow> \<lparr>printed = out1, raised = Some ex, final_world = w\<rparr>
         | (out1, Inr _) \<Rightarrow>
             (let R = run_modules e (arg_target a) modules a w
              in case render_results pal h (arg_no_color a) (results R) modules of
                   (out2, Inl ex) \<Rightarrow>
                     \<lparr>printed = out1 @ out2, raised = Some ex, final_world = world R\<rparr>
                 | (out2, Inr _) \<Rightarrow>
                     (case write_output pal h a modules (results R) (world R) of
                        ((out3, Inl ex), w') \<Rightarrow>
                          \<lparr>printed = out1 @ out2 @ out3, raised = Some ex, final_world = w'\<rparr>
                      | ((out3, Inr _), w') \<Rightarrow>
                          \<lparr>printed = out1 @ out2 @ out3, raised = None, final_world = w'\<rparr>)))"

text \<open>
  The exit status of the process: 0 when \<^verbatim>\<open>main\<close> returns, 1 when an exception
  leaves it.
\<close>

definition exit_code :: "'w main_result \<Rightarrow> int" where
  "exit_code r = (case raised r of None \<Rightarrow> 0 | Some ex \<Rightarrow> 1)"

subsection \<open>Ways a module can malfunction\<close>

text \<open>
  A module malfunctions when, in whatever state of the world it is handled, its load
  raises, or the loaded module has no callable \<^verbatim>\<open>run\<close>, or the call of \<^verbatim>\<open>run\<close> raises.
\<close>

definition run_options :: "args \<Rightarrow> options" where
  "run_options a = \<lparr>timeout = arg_timeout a, top_ports = arg_top_ports a\<rparr>"

text \<open>
  What handling one name adds to the log: the load, and after it the call of \<^verbatim>\<open>run\<close>
  when there is one.
\<close>

definition handles :: "string \<Rightarrow> args \<Rightarrow> string \<Rightarrow> event list \<Rightarrow> bool" where
  "handles target a k b = (b = [Load k] \<or> b = [Load k, Invoke k target (run_options a)])"





subsection \<open>A concrete installation\<close>

text \<open>
  An installation to evaluate the program on. The world is a counter that the clock
  reads and advances. The DNS module answers, more slowly each time; the WHOIS module cannot
  be imported; the headers module has no \<^verbatim>\<open>run\<close>; the port scanner raises an exception
  whose text is empty, as \<^verbatim>\<open>raise TimeoutError()\<close> does.
\<close>

definition dns_run :: "string \<Rightarrow> options \<Rightarrow> nat \<Rightarrow> (py_exception + string) \<times> nat" where
  "dns_run target opts w = (Inr (''A '' @ target), 2 * w + 2)"

definition portscan_run :: "string \<Rightarrow> options \<Rightarrow> nat \<Rightarrow> (py_exception + string) \<times> nat" where
  "portscan_run target opts w = (Inl (PyExc ''TimeoutError'' []), w)"

definition demo_import ::
  "string \<Rightarrow> nat \<Rightarrow> (py_exception + (nat, string) py_module) \<times> nat" where
  "demo_import path w =
     (if path = ''modules.dns_lookup'' then (Inr (Module (Some (Callable dns_run))), w)
      else if path = ''modules.whois_lookup''
        then (Inl (PyExc ''ModuleNotFoundError'' ''No module named whois''), w)
      else if path = ''modules.headers'' then (Inr (Module None), w)
      else (Inr (Module (Some (Callable portscan_run))), w))"

definition demo_env :: "(nat, string) env" where
  "demo_env = \<lparr>import_module = demo_import, time_time = (\<lambda>w. (real w, w + 1))\<rparr>"

text \<open>The same installation under a wall clock that is set back between two readings.\<close>

definition set_back_env :: "(nat, string) env" where
  "set_back_env =
     \<lparr>import_module = demo_import, time_time = (\<lambda>w. (if w = 0 then 5 else 3, w + 1))\<rparr>"

definition demo_args :: args where
  "demo_args =
     \<lparr>arg_target = ''example.com'', arg_modules = ''dns,whois,headers,portscan'',
      arg_timeout = 3, arg_output = None, arg_top_ports = 50,
      arg_no_color = False, arg_quiet = False\<rparr>"

text \<open>
  A host where the colour library is installed and every write succeeds. The library's
  objects hold the escape sequences under the names the program reads.
\<close>

definition demo_palette :: palette where
  "demo_palette =
     \<lparr>Fore = [(''GREEN'', CHR 0x1B # ''[32m''), (''YELLOW'', CHR 0x1B # ''[33m''),
              (''RED'', CHR 0x1B # ''[31m''), (''RESET'', CHR 0x1B # ''[39m'')],
      Style = [(''RESET_ALL'', CHR 0x1B # ''[0m'')]\<rparr>"

definition demo_host :: "(nat, string) host" where
  "demo_host =
     \<lparr>colorama = Some demo_palette,
      str_float = (\<lambda>x. if x = 3 then ''3.0'' else ''?''),
      str_value = (\<lambda>v. v),
      dict_items = (\<lambda>v. None),
      json_dump = (\<lambda>path doc w. (None, w)),
      resolve = (\<lambda>path. Inr (''/tmp/'' @ path))\<rparr>"

section \<open>Properties of the dispatcher\<close>

subsection \<open>One iteration of the loop\<close>

lemma loop_body_blank: "strip raw = [] \<Longrightarrow> loop_body e t a raw s = s"
  by (simp add: loop_body_def)

lemma loop_body_results:
  "strip raw \<noteq> [] \<Longrightarrow> \<exists>p. results (loop_body e t a raw s) = AList.update (strip raw) p (results s)"
  by (auto simp: loop_body_def Let_def split: prod.splits sum.splits option.splits run_attr.splits)

lemma keys_update:
  "map fst (AList.update k v al) = (if k \<in> set (map fst al) then map fst al else map fst al @ [k])"
  by (induction al) auto

lemma loop_body_keys:
  "set (map fst (results (loop_body e t a raw s))) =
     set (map fst (results s)) \<union> (if strip raw = [] then {} else {strip raw})"
proof (cases "strip raw = []")
  case True then show ?thesis by (simp add: loop_body_blank)
next
  case False
  then obtain p where "results (loop_body e t a raw s) = AList.update (strip raw) p (results s)"
    using loop_body_results by blast
  then show ?thesis using False by (auto simp: keys_update)
qed

lemma loop_body_distinct:
  assumes "distinct (map fst (results s))"
  shows "distinct (map fst (results (loop_body e t a raw s)))"
proof (cases "strip raw = []")
  case True with assms show ?thesis by (simp add: loop_body_blank)
next
  case False
  then obtain p where "results (loop_body e t a raw s) = AList.update (strip raw) p (results s)"
    using loop_body_results by blast
  then show ?thesis using assms by (simp add: distinct_update)
qed

lemma requested_Cons:
  "requested (raw # ns) = (if strip raw = [] then requested ns else strip raw # requested ns)"
  by (simp add: requested_def)

lemma for_names_keys:
  "set (map fst (results (for_names e t a ns s))) = set (map fst (results s)) \<union> set (requested ns)"
proof (induction ns arbitrary: s)
  case Nil
  show ?case by (simp add: requested_def)
next
  case (Cons raw ns)
  have "set (map fst (results (for_names e t a (raw # ns) s)))
      = set (map fst (results (loop_body e t a raw s))) \<union> set (requested ns)"
    using Cons.IH by simp
  also have "\<dots> = set (map fst (results s)) \<union> set (requested (raw # ns))"
    unfolding loop_body_keys requested_Cons by auto
  finally show ?case .
qed

lemma for_names_distinct:
  "distinct (map fst (results s)) \<Longrightarrow> distinct (map fst (results (for_names e t a ns s)))"
  by (induction ns arbitrary: s) (auto simp: loop_body_distinct)

lemma for_names_append:
  "for_names e t a (xs @ ys) s = for_names e t a ys (for_names e t a xs s)"
  by (induction xs arbitrary: s) auto

lemma strip_idem: "strip (strip s) = strip s"
proof -
  let ?P = py_isspace
  let ?t = "dropWhile ?P s"
  let ?u = "rev (dropWhile ?P (rev ?t))"
  have u: "strip s = ?u" by (simp add: strip_def)
  show ?thesis
  proof (cases "?u = []")
    case True
    with u have "strip s = []" by simp
    moreover have "strip [] = []" by (simp add: strip_def)
    ultimately show ?thesis by simp
  next
    case False
    then have ne: "dropWhile ?P (rev ?t) \<noteq> []" by simp
    have last_ok: "\<not> ?P (hd (dropWhile ?P (rev ?t)))" using ne by (rule hd_dropWhile)
    have tne: "?t \<noteq> []"
    proof
      assume "?t = []"
      then have "dropWhile ?P (rev ?t) = []" by (simp only: rev.simps dropWhile.simps)
      with ne show False by blast
    qed
    have hd_t: "\<not> ?P (hd ?t)" using tne by (rule hd_dropWhile)
    obtain d where d: "rev ?t = d @ dropWhile ?P (rev ?t)"
      by (metis takeWhile_dropWhile_id)
    then have "?t = ?u @ rev d" by (metis rev_append rev_rev_ident)
    then have "hd ?u = hd ?t" using False by (metis hd_append2)
    then have hd_u: "\<not> ?P (hd ?u)" using hd_t by simp
    have a: "dropWhile ?P ?u = ?u" using hd_u False by (simp add: dropWhile_eq_self_iff)
    have b: "dropWhile ?P (rev ?u) = rev ?u" using last_ok ne by (simp add: dropWhile_eq_self_iff)
    show ?thesis unfolding u unfolding strip_def[of ?u] a b by simp
  qed
qed

lemma loop_body_strip: "loop_body e t a (strip raw) s = loop_body e t a raw s"
  by (simp add: loop_body_def strip_idem)


lemma requested_idem: "requested (requested ns) = requested ns"
  by (induction ns) (auto simp: requested_def strip_idem)

lemma loop_body_other:
  "strip raw \<noteq> k \<Longrightarrow> map_of (results (loop_body e t a raw s)) k = map_of (results s) k"
proof (cases "strip raw = []")
  case True then show ?thesis by (simp add: loop_body_blank)
next
  case False
  assume "strip raw \<noteq> k"
  moreover obtain p where "results (loop_body e t a raw s) = AList.update (strip raw) p (results s)"
    using False loop_body_results by blast
  ultimately show ?thesis by (simp add: update_conv')
qed

lemma for_names_other:
  "k \<notin> set (requested ns) \<Longrightarrow> map_of (results (for_names e t a ns s)) k = map_of (results s) k"
proof (induction ns arbitrary: s)
  case Nil show ?case by simp
next
  case (Cons raw ns)
  from Cons.prems have 1: "k \<notin> set (requested ns)" and 2: "strip raw \<noteq> k \<or> strip raw = []"
    by (auto simp: requested_Cons split: if_splits)
  have "map_of (results (loop_body e t a raw s)) k = map_of (results s) k"
  proof (cases "strip raw = []")
    case True then show ?thesis by (simp add: loop_body_blank)
  next
    case False with 2 show ?thesis by (simp add: loop_body_other)
  qed
  with Cons.IH[OF 1] show ?case by simp
qed

lemma for_names_last:
  assumes "strip raw \<noteq> []" "strip raw \<notin> set (requested post)"
  shows "map_of (results (for_names e t a (pre @ raw # post) s)) (strip raw)
       = map_of (results (loop_body e t a raw (for_names e t a pre s))) (strip raw)"
  using assms by (simp add: for_names_append for_names_other)

lemma for_names_entry:
  assumes k: "k \<in> set (requested ns)"
    and step: "\<And>s. \<exists>p. Q p \<and> results (loop_body e t a k s) = AList.update k p (results s)"
  shows "\<exists>p. Q p \<and> map_of (results (for_names e t a ns s)) k = Some p"
  using k
proof (induction ns arbitrary: s)
  case Nil then show ?case by (simp add: requested_def)
next
  case (Cons raw ns)
  show ?case
  proof (cases "k \<in> set (requested ns)")
    case True
    then show ?thesis using Cons.IH by simp
  next
    case False
    with Cons.prems have eq: "strip raw = k" and ne: "k \<noteq> []"
      by (auto simp: requested_Cons split: if_splits)
    have "loop_body e t a raw s = loop_body e t a k s"
      using eq loop_body_strip by metis
    moreover obtain p where "Q p" "results (loop_body e t a k s) = AList.update k p (results s)"
      using step by blast
    ultimately have "Q p \<and> map_of (results (loop_body e t a raw s)) k = Some p"
      by (simp add: update_conv')
    then show ?thesis using False by (auto simp: for_names_other)
  qed
qed

text \<open>The five ways through the body of the loop.\<close>

lemma loop_body_load_error:
  assumes "strip raw \<noteq> []" "load_module_by_name e (strip raw) (world s) = (Inl ex, w1)"
  shows "loop_body e t a raw s =
     \<lparr>results = AList.update (strip raw) (Failure (exc_str ex)) (results s), world = w1,
      calls = calls s @ [Load (strip raw)]\<rparr>"
  using assms by (simp add: loop_body_def Let_def)

lemma loop_body_no_run:
  assumes "strip raw \<noteq> []" "load_module_by_name e (strip raw) (world s) = (Inr m, w1)"
    "\<forall>f. run_of m \<noteq> Some (Callable f)"
  shows "loop_body e t a raw s =
     \<lparr>results = AList.update (strip raw) (Failure ''module missing run(target, options) function'')
         (results s), world = w1,
      calls = calls s @ [Load (strip raw)]\<rparr>"
  using assms by (simp add: loop_body_def Let_def split: option.splits run_attr.splits)

lemma loop_body_run_error:
  assumes "strip raw \<noteq> []"
    "load_module_by_name e (strip raw) (world s) = (Inr m, w1)" "run_of m = Some (Callable f)"
    "time_time e w1 = (t0, w2)" "f t (run_options a) w2 = (Inl ex, w3)"
  shows "loop_body e t a raw s =
     \<lparr>results = AList.update (strip raw) (Failure (exc_str ex)) (results s), world = w3,
      calls = calls s @ [Load (strip raw), Invoke (strip raw) t (run_options a)]\<rparr>"
  using assms by (simp add: loop_body_def Let_def run_options_def)

lemma loop_body_run_ok:
  assumes "strip raw \<noteq> []"
    "load_module_by_name e (strip raw) (world s) = (Inr m, w1)" "run_of m = Some (Callable f)"
    "time_time e w1 = (t0, w2)" "f t (run_options a) w2 = (Inr d, w3)"
    "time_time e w3 = (t1, w4)"
  shows "loop_body e t a raw s =
     \<lparr>results = AList.update (strip raw) (Success (py_round (t1 - t0) 2) d) (results s), world = w4,
      calls = calls s @ [Load (strip raw), Invoke (strip raw) t (run_options a)]\<rparr>"
  using assms by (simp add: loop_body_def Let_def run_options_def)

lemma loop_body_calls:
  assumes ne: "strip raw \<noteq> []"
  shows "\<exists>b. handles t a (strip raw) b \<and> calls (loop_body e t a raw s) = calls s @ b"
proof -
  obtain r w1 where l: "load_module_by_name e (strip raw) (world s) = (r, w1)"
    by (cases "load_module_by_name e (strip raw) (world s)")
  show ?thesis
  proof (cases r)
    case (Inl ex)
    with ne l show ?thesis by (simp add: loop_body_load_error handles_def)
  next
    case (Inr m)
    show ?thesis
    proof (cases "\<exists>f. run_of m = Some (Callable f)")
      case False
      with ne l Inr show ?thesis by (simp add: loop_body_no_run handles_def)
    next
      case True
      then obtain f where f: "run_of m = Some (Callable f)" by blast
      obtain t0 w2 where c0: "time_time e w1 = (t0, w2)" by (cases "time_time e w1")
      obtain r2 w3 where c1: "f t (run_options a) w2 = (r2, w3)"
        by (cases "f t (run_options a) w2")
      show ?thesis
      proof (cases r2)
        case (Inl ex)
        with ne l Inr f c0 c1 show ?thesis by (simp add: loop_body_run_error handles_def)
      next
        case r2: (Inr d)
        obtain t1 w4 where c2: "time_time e w3 = (t1, w4)" by (cases "time_time e w3")
        from ne l Inr f c0 c1 r2 c2 show ?thesis by (simp add: loop_body_run_ok handles_def)
      qed
    qed
  qed
qed

subsection \<open>The whole run\<close>

lemma run_modules_keys:
  "set (map fst (results (run_modules e t names a w))) = set (requested names)"
  unfolding run_modules_def for_names_keys by simp

lemma run_modules_distinct:
  "distinct (map fst (results (run_modules e t names a w)))"
  by (simp add: run_modules_def for_names_distinct)

lemma run_modules_last:
  assumes "strip raw \<noteq> []" "strip raw \<notin> set (requested post)"
  shows "map_of (results (run_modules e t (pre @ raw # post) a w)) (strip raw)
       = map_of (results (loop_body e t a raw (run_modules e t pre a w))) (strip raw)"
  unfolding run_modules_def using assms by (rule for_names_last)

lemma loop_body_key_list:
  "map fst (results (loop_body e t a raw s)) =
     (if strip raw = [] \<or> strip raw \<in> set (map fst (results s)) then map fst (results s)
      else map fst (results s) @ [strip raw])"
proof (cases "strip raw = []")
  case True then show ?thesis by (simp add: loop_body_blank)
next
  case False
  then obtain p where "results (loop_body e t a raw s) = AList.update (strip raw) p (results s)"
    using loop_body_results by blast
  then show ?thesis using False by (simp add: keys_update)
qed

lemma scenario_keys:
  "map fst (results (run_modules e t ['' '', '' '', ''dns'', '' '', ''dns''] a w)) = [''dns'']"
proof -
  have b: "strip '' '' = []" and d: "strip ''dns'' = ''dns''"
    by (simp_all add: strip_def py_isspace_def)
  show ?thesis
    unfolding run_modules_def for_names.simps
    by (simp add: loop_body_key_list b d)
qed

subsection \<open>The log of calls\<close>

lemma for_names_calls:
  "\<exists>bs. list_all2 (handles t a) (requested ns) bs \<and>
        calls (for_names e t a ns s) = calls s @ concat bs"
proof (induction ns arbitrary: s)
  case Nil
  show ?case by (simp add: requested_def)
next
  case (Cons raw ns)
  obtain bs where bs: "list_all2 (handles t a) (requested ns) bs"
    "calls (for_names e t a ns (loop_body e t a raw s)) = calls (loop_body e t a raw s) @ concat bs"
    using Cons.IH by blast
  show ?case
  proof (cases "strip raw = []")
    case True
    with bs show ?thesis by (auto simp: requested_Cons loop_body_blank)
  next
    case False
    then obtain b where b: "handles t a (strip raw) b"
      "calls (loop_body e t a raw s) = calls s @ b"
      using loop_body_calls by blast
    have "list_all2 (handles t a) (requested (raw # ns)) (b # bs)"
      using False b(1) bs(1) by (simp add: requested_Cons)
    moreover have "calls (for_names e t a (raw # ns) s) = calls s @ concat (b # bs)"
      using bs(2) b(2) by simp
    ultimately show ?thesis by blast
  qed
qed

lemma run_modules_calls:
  "\<exists>bs. list_all2 (handles t a) (requested ns) bs \<and> calls (run_modules e t ns a w) = concat bs"
  using for_names_calls[of t a ns e "\<lparr>results = [], world = w, calls = []\<rparr>"]
  by (simp add: run_modules_def)

lemma loads_append: "loads (xs @ ys) = loads xs @ loads ys"
  by (induction xs rule: loads.induct) auto


lemma blocks_loaded:
  "list_all2 (handles t a) ks bs \<Longrightarrow> loads (concat bs) = ks"
  by (induction ks bs rule: list_all2_induct) (auto simp: handles_def loads_append)




subsection \<open>Entries of the results\<close>

text \<open>
  Claim C2. Whatever list of names is requested, the keys of the results are distinct and
  are exactly the trimmed names that are not blank, so there are as many entries as
  there are distinct such names. A name that is blank after trimming adds nothing. For
  a repeated name the entry is the one written when its last occurrence was handled.
  The list of a blank, a blank, \<^verbatim>\<open>dns\<close>, a blank and \<^verbatim>\<open>dns\<close> gives the single key
  \<^verbatim>\<open>dns\<close>, in any environment.
\<close>

theorem run_modules_one_entry_per_name:
  "distinct (map fst (results (run_modules e t names a w))) \<and>
   set (map fst (results (run_modules e t names a w))) = set (requested names) \<and>
   length (results (run_modules e t names a w)) = card (set (requested names)) \<and>
   (\<forall>pre raw post. names = pre @ raw # post \<and> strip raw \<noteq> [] \<and> strip raw \<notin> set (requested post)
      \<longrightarrow> map_of (results (run_modules e t names a w)) (strip raw)
          = map_of (results (loop_body e t a raw (run_modules e t pre a w))) (strip raw)) \<and>
   map fst (results (run_modules e t ['' '', '' '', ''dns'', '' '', ''dns''] a w)) = [''dns'']"
proof -
  let ?R = "run_modules e t names a w"
  have d: "distinct (map fst (results ?R))" by (rule run_modules_distinct)
  have k: "set (map fst (results ?R)) = set (requested names)" by (rule run_modules_keys)
  have "length (results ?R) = length (map fst (results ?R))" by simp
  also have "\<dots> = card (set (map fst (results ?R)))" using d by (rule distinct_card[symmetric])
  finally have l: "length (results ?R) = card (set (requested names))" using k by simp
  have w: "\<forall>pre raw post. names = pre @ raw # post \<and> strip raw \<noteq> [] \<and> strip raw \<notin> set (requested post)
      \<longrightarrow> map_of (results ?R) (strip raw)
          = map_of (results (loop_body e t a raw (run_modules e t pre a w))) (strip raw)"
  proof (intro allI impI)
    fix pre raw post
    assume h: "names = pre @ raw # post \<and> strip raw \<noteq> [] \<and> strip raw \<notin> set (requested post)"
    then have "map_of (results (run_modules e t (pre @ raw # post) a w)) (strip raw)
       = map_of (results (loop_body e t a raw (run_modules e t pre a w))) (strip raw)"
      by (intro run_modules_last) simp_all
    with h show "map_of (results ?R) (strip raw)
          = map_of (results (loop_body e t a raw (run_modules e t pre a w))) (strip raw)"
      by simp
  qed
  show ?thesis by (intro conjI d k l w scenario_keys)
qed

text \<open>Unfolding the concrete installation.\<close>

lemmas demo_simps = run_modules_def loop_body_def load_module_by_name_def AVAILABLE_MODULES_def
  demo_env_def demo_import_def dns_run_def portscan_run_def demo_args_def strip_def py_isspace_def
  quote_def py_round_def round_half_even_def Let_def requested_def

text \<open>On the concrete installation: \<^verbatim>\<open>dns\<close> is requested twice, and the entry kept is the one of
  its second run.\<close>

theorem run_modules_one_entry_per_name_witness:
  "results (run_modules demo_env ''example.com'' ['' dns'', ''bogus'', ''dns ''] demo_args 0)
     = [(''dns'', Success 9 ''A example.com''),
        (''bogus'', Failure (''Unknown module '' @ quote ''bogus''))] \<and>
   requested ['' dns'', ''bogus'', ''dns ''] = [''dns'', ''bogus'', ''dns''] \<and>
   card (set (requested ['' dns'', ''bogus'', ''dns ''])) = 2 \<and>
   results (run_modules demo_env ''example.com'' ['' dns'', ''bogus''] demo_args 0)
     = [(''dns'', Success 4 ''A example.com''),
        (''bogus'', Failure (''Unknown module '' @ quote ''bogus''))] \<and>
   map_of (results (run_modules demo_env ''example.com'' ['' dns'', ''bogus'', ''dns ''] demo_args 0))
      (strip ''dns '')
     = map_of (results (loop_body demo_env ''example.com'' demo_args ''dns ''
         (run_modules demo_env ''example.com'' ['' dns'', ''bogus''] demo_args 0))) (strip ''dns '')"
proof -
  have r: "results (run_modules demo_env ''example.com'' ['' dns'', ''bogus'', ''dns ''] demo_args 0)
     = [(''dns'', Success 9 ''A example.com''),
        (''bogus'', Failure (''Unknown module '' @ quote ''bogus''))]"
    by (simp add: demo_simps)
  have q: "requested ['' dns'', ''bogus'', ''dns ''] = [''dns'', ''bogus'', ''dns'']"
    by (simp add: requested_def strip_def py_isspace_def)
  have c: "card (set (requested ['' dns'', ''bogus'', ''dns ''])) = 2"
    unfolding q by (simp add: card_insert_if)
  have p: "results (run_modules demo_env ''example.com'' ['' dns'', ''bogus''] demo_args 0)
     = [(''dns'', Success 4 ''A example.com''),
        (''bogus'', Failure (''Unknown module '' @ quote ''bogus''))]"
    by (simp add: demo_simps)
  have h: "['' dns'', ''bogus'', ''dns ''] = ['' dns'', ''bogus''] @ ''dns '' # [] \<and>
      strip ''dns '' \<noteq> [] \<and> strip ''dns '' \<notin> set (requested [])"
    by (simp add: requested_def strip_def py_isspace_def)
  from run_modules_one_entry_per_name
    [of demo_env "''example.com''" "['' dns'', ''bogus'', ''dns '']" demo_args 0] h
  have "map_of (results (run_modules demo_env ''example.com'' ['' dns'', ''bogus'', ''dns ''] demo_args 0))
      (strip ''dns '')
     = map_of (results (loop_body demo_env ''example.com'' demo_args ''dns ''
         (run_modules demo_env ''example.com'' ['' dns'', ''bogus''] demo_args 0))) (strip ''dns '')"
    by blast
  then show ?thesis by (intro conjI r q c p)
qed

lemma run_modules_entry:
  assumes "k \<in> set (requested ns)"
    and "\<And>s. \<exists>p. Q p \<and> results (loop_body e t a k s) = AList.update k p (results s)"
  shows "\<exists>p. Q p \<and> map_of (results (run_modules e t ns a w)) k = Some p"
  unfolding run_modules_def using assms by (rule for_names_entry)

lemma run_modules_loads: "loads (calls (run_modules e t ns a w)) = requested ns"
proof -
  from run_modules_calls[of t a ns e w]
  obtain bs where "list_all2 (handles t a) (requested ns) bs"
    "calls (run_modules e t ns a w) = concat bs"
    by blast
  then show ?thesis by (simp add: blocks_loaded)
qed

lemma load_unknown:
  "map_of AVAILABLE_MODULES k = None \<Longrightarrow>
   load_module_by_name e k w = (Inl (PyExc ''ValueError'' (''Unknown module '' @ quote k)), w)"
  by (simp add: load_module_by_name_def)


text \<open>
  Claim C3. A requested name that is not a key of the registry gets the entry
  \<open>Failure\<close> with the message \<^verbatim>\<open>Unknown module '<name>'\<close>; the run returns its results
  all the same, with an entry for every requested name that is not blank, and every such
  name is loaded, in request order.
\<close>

theorem unknown_name_is_failure:
  fixes e :: "('w, 'v) env"
  assumes "n \<in> set names" "strip n \<noteq> []" "map_of AVAILABLE_MODULES (strip n) = None"
  shows "map_of (results (run_modules e t names a w)) (strip n)
           = Some (Failure (''Unknown module '' @ quote (strip n))) \<and>
         set (map fst (results (run_modules e t names a w))) = set (requested names) \<and>
         loads (calls (run_modules e t names a w)) = requested names"
proof -
  let ?k = "strip n"
  let ?msg = "''Unknown module '' @ quote ?k"
  have k: "?k \<in> set (requested names)" using assms(1,2) by (auto simp: requested_def)
  have step: "\<exists>p. p = Failure ?msg \<and>
      results (loop_body e t a ?k s) = AList.update ?k p (results s)" for s :: "('w, 'v) run_state"
  proof -
    have "strip ?k \<noteq> []" using assms(2) by (simp add: strip_idem)
    moreover have "load_module_by_name e (strip ?k) (world s)
        = (Inl (PyExc ''ValueError'' ?msg), world s)"
      using assms(3) by (simp add: strip_idem load_unknown)
    ultimately have "loop_body e t a ?k s =
       \<lparr>results = AList.update (strip ?k) (Failure (exc_str (PyExc ''ValueError'' ?msg))) (results s),
        world = world s, calls = calls s @ [Load (strip ?k)]\<rparr>"
      by (rule loop_body_load_error)
    then show ?thesis by (simp add: strip_idem)
  qed
  have "\<exists>p. p = Failure ?msg \<and> map_of (results (run_modules e t names a w)) ?k = Some p"
    using k step by (rule run_modules_entry)
  then have "map_of (results (run_modules e t names a w)) ?k = Some (Failure ?msg)" by simp
  then show ?thesis by (intro conjI run_modules_keys run_modules_loads)
qed

text \<open>On the concrete installation: the name \<^verbatim>\<open>bogus\<close> is not in the registry.\<close>

theorem unknown_name_is_failure_witness:
  "''bogus'' \<in> set ['' dns'', ''bogus''] \<and> strip ''bogus'' \<noteq> [] \<and>
   map_of AVAILABLE_MODULES (strip ''bogus'') = None \<and>
   map_of (results (run_modules demo_env ''example.com'' ['' dns'', ''bogus''] demo_args 0))
       (strip ''bogus'')
     = Some (Failure (''Unknown module '' @ quote (strip ''bogus''))) \<and>
   set (map fst (results (run_modules demo_env ''example.com'' ['' dns'', ''bogus''] demo_args 0)))
     = set (requested ['' dns'', ''bogus'']) \<and>
   loads (calls (run_modules demo_env ''example.com'' ['' dns'', ''bogus''] demo_args 0))
     = requested ['' dns'', ''bogus'']"
proof -
  have h1: "''bogus'' \<in> set ['' dns'', ''bogus'']" by simp
  have h2: "strip ''bogus'' \<noteq> []" by (simp add: strip_def py_isspace_def)
  have h3: "map_of AVAILABLE_MODULES (strip ''bogus'') = None"
    by (simp add: AVAILABLE_MODULES_def strip_def py_isspace_def)
  from unknown_name_is_failure[OF h1 h2 h3, of demo_env "''example.com''" demo_args 0] h1 h2 h3
  show ?thesis by (intro conjI) simp_all
qed


















subsection \<open>The options every module receives\<close>





subsection \<open>The names displayed\<close>

lemma parse_modules_requested: "parse_modules s = requested (split_on CHR '','' s)"
  by (simp add: parse_modules_def requested_def filter_map comp_def)

lemma requested_parse_modules: "requested (parse_modules s) = parse_modules s"
  by (simp add: parse_modules_requested requested_idem)

text \<open>
  Claim C10. The names \<^verbatim>\<open>main\<close> displays are those of line 99, and \<^verbatim>\<open>run_modules\<close> is
  given the same list. Each of them is a key of the results, so the lookup of line 110
  returns the entry of the name and never its default \<^verbatim>\<open>{"error": "no result"}\<close>.
\<close>

theorem rendered_names_have_results:
  assumes "m \<in> set (parse_modules s)"
  shows "\<exists>p. map_of (results (run_modules e t (parse_modules s) a w)) m = Some p \<and>
             results_get (results (run_modules e t (parse_modules s) a w)) m = p"
proof -
  let ?res = "results (run_modules e t (parse_modules s) a w)"
  have "set (map fst ?res) = set (parse_modules s)"
    by (simp only: run_modules_keys requested_parse_modules)
  with assms have "m \<in> fst ` set ?res" by simp
  then have "map_of ?res m \<noteq> None" by (simp add: map_of_eq_None_iff)
  then obtain p where p: "map_of ?res m = Some p" by (cases "map_of ?res m") simp_all
  then have "results_get ?res m = p" by (simp add: results_get_def)
  with p show ?thesis by simp
qed

lemma demo_parse: "parse_modules '' , ,dns, ,dns'' = [''dns'', ''dns'']"
  by (simp add: parse_modules_def strip_def py_isspace_def)

text \<open>On the concrete installation, for the request of blanks and \<^verbatim>\<open>dns\<close> twice.\<close>

theorem rendered_names_have_results_witness:
  "''dns'' \<in> set (parse_modules '' , ,dns, ,dns'') \<and>
   (\<exists>p. map_of (results (run_modules demo_env ''example.com'' (parse_modules '' , ,dns, ,dns'')
             demo_args 0)) ''dns'' = Some p \<and>
        results_get (results (run_modules demo_env ''example.com''
             (parse_modules '' , ,dns, ,dns'') demo_args 0)) ''dns'' = p)"
proof -
  have h: "''dns'' \<in> set (parse_modules '' , ,dns, ,dns'')" by (simp add: demo_parse)
  from rendered_names_have_results[OF h, of demo_env "''example.com''" demo_args 0] h
  show ?thesis by (intro conjI)
qed

subsection \<open>The elapsed time\<close>

lemma round_half_even_nonneg: "0 \<le> x \<Longrightarrow> 0 \<le> round_half_even x"
proof -
  assume "0 \<le> x"
  then have "0 \<le> \<lfloor>x\<rfloor>" by simp
  then show ?thesis by (simp add: round_half_even_def Let_def)
qed

lemma round_half_even_close: "\<bar>of_int (round_half_even x) - x\<bar> \<le> 1 / 2"
proof -
  have "of_int \<lfloor>x\<rfloor> \<le> x" "x < of_int \<lfloor>x\<rfloor> + 1" by linarith+
  then show ?thesis by (auto simp: round_half_even_def Let_def)
qed

lemma py_round_nonneg: "0 \<le> x \<Longrightarrow> 0 \<le> py_round x n"
  by (simp add: py_round_def round_half_even_nonneg)

lemma py_round_close: "\<bar>py_round x 2 - x\<bar> \<le> 1 / 200"
proof -
  have "\<bar>of_int (round_half_even (x * 100)) - x * 100\<bar> \<le> 1 / 2"
    by (rule round_half_even_close)
  then have "\<bar>of_int (round_half_even (x * 100)) / 100 - x\<bar> \<le> 1 / 200"
    by (simp add: abs_le_iff field_simps)
  then show ?thesis by (simp add: py_round_def)
qed

text \<open>
  Claim C5, as amended. When a name is handled, its module loads, its \<^verbatim>\<open>run\<close> is callable
  and the call returns, the entry written holds the value \<^verbatim>\<open>run\<close> returned and, as elapsed
  time, the difference of two clock readings rounded to two decimal places: the first
  reading is taken in the world the load left, just before the call, and the second in
  the world the call left. The stored value is the rounded one, within 0.005 of the
  difference, and it is not negative whenever the second reading is not below the first.
\<close>

theorem elapsed_of_successful_run:
  assumes "strip raw \<noteq> []"
    and "load_module_by_name e (strip raw) (world s) = (Inr m, w1)"
    and "run_of m = Some (Callable f)"
    and "time_time e w1 = (t0, w2)"
    and "f t (run_options a) w2 = (Inr d, w3)"
    and "time_time e w3 = (t1, w4)"
  shows "map_of (results (loop_body e t a raw s)) (strip raw)
           = Some (Success (py_round (t1 - t0) 2) d) \<and>
         world (loop_body e t a raw s) = w4 \<and>
         \<bar>py_round (t1 - t0) 2 - (t1 - t0)\<bar> \<le> 1 / 200 \<and>
         (t0 \<le> t1 \<longrightarrow> 0 \<le> py_round (t1 - t0) 2)"
proof -
  have "loop_body e t a raw s =
     \<lparr>results = AList.update (strip raw) (Success (py_round (t1 - t0) 2) d) (results s), world = w4,
      calls = calls s @ [Load (strip raw), Invoke (strip raw) t (run_options a)]\<rparr>"
    using assms by (rule loop_body_run_ok)
  then have "map_of (results (loop_body e t a raw s)) (strip raw)
           = Some (Success (py_round (t1 - t0) 2) d)"
    and "world (loop_body e t a raw s) = w4"
    by (simp_all add: update_conv')
  moreover have "t0 \<le> t1 \<longrightarrow> 0 \<le> py_round (t1 - t0) 2"
    by (simp add: py_round_nonneg)
  ultimately show ?thesis using py_round_close by simp
qed

lemma demo_load_dns:
  "load_module_by_name demo_env ''dns'' w = (Inr (Module (Some (Callable dns_run))), w)"
  by (simp add: load_module_by_name_def AVAILABLE_MODULES_def demo_env_def demo_import_def)

text \<open>On the concrete installation: the first run of the DNS module, from tick 0 to tick 4.\<close>

theorem elapsed_of_successful_run_witness:
  "strip ''dns'' \<noteq> [] \<and>
   load_module_by_name demo_env (strip ''dns'') (0::nat) = (Inr (Module (Some (Callable dns_run))), 0) \<and>
   time_time demo_env 0 = (0, 1) \<and>
   dns_run ''example.com'' (run_options demo_args) 1 = (Inr ''A example.com'', 4) \<and>
   time_time demo_env 4 = (4, 5) \<and>
   map_of (results (loop_body demo_env ''example.com'' demo_args ''dns''
       \<lparr>results = [], world = 0, calls = []\<rparr>)) (strip ''dns'')
     = Some (Success (py_round (4 - 0) 2) ''A example.com'') \<and>
   world (loop_body demo_env ''example.com'' demo_args ''dns''
       \<lparr>results = [], world = 0, calls = []\<rparr>) = 5 \<and>
   (0::real) \<le> 4 \<and> 0 \<le> py_round (4 - 0) 2"
proof -
  have sd: "strip ''dns'' = ''dns''" by (simp add: strip_def py_isspace_def)
  have h1: "strip ''dns'' \<noteq> []" by (simp add: sd)
  have h2: "load_module_by_name demo_env (strip ''dns'')
      (world \<lparr>results = ([] :: (string \<times> string payload) list), world = (0::nat), calls = []\<rparr>)
       = (Inr (Module (Some (Callable dns_run))), 0)"
    by (simp add: sd demo_load_dns)
  have h3: "run_of (Module (Some (Callable dns_run))) = Some (Callable dns_run)" by simp
  have h4: "time_time demo_env 0 = (0, 1)" by (simp add: demo_env_def)
  have h5: "dns_run ''example.com'' (run_options demo_args) 1 = (Inr ''A example.com'', 4)"
    by (simp add: dns_run_def)
  have h6: "time_time demo_env 4 = (4, 5)" by (simp add: demo_env_def)
  note th = elapsed_of_successful_run[OF h1 h2 h3 h4 h5 h6]
  have l: "load_module_by_name demo_env (strip ''dns'') (0::nat)
       = (Inr (Module (Some (Callable dns_run))), 0)"
    by (simp add: sd demo_load_dns)
  from th have a: "map_of (results (loop_body demo_env ''example.com'' demo_args ''dns''
       \<lparr>results = [], world = 0, calls = []\<rparr>)) (strip ''dns'')
     = Some (Success (py_round (4 - 0) 2) ''A example.com'')"
    and b: "world (loop_body demo_env ''example.com'' demo_args ''dns''
       \<lparr>results = [], world = 0, calls = []\<rparr>) = 5"
    and c: "0 \<le> py_round (4 - 0) 2"
    by simp_all
  have z: "(0::real) \<le> 4" by simp
  show ?thesis by (intro conjI h1 l h4 h5 h6 a b z c)
qed

text \<open>
  Claim C5 as stated fails: \<^verbatim>\<open>time.time()\<close> is the wall clock, and when it is set back
  from 5 to 3 while the module runs, the elapsed time recorded for the successful run is
  negative.
\<close>

theorem elapsed_negative_counterexample:
  "results (run_modules set_back_env ''example.com'' [''dns''] demo_args 0)
     = [(''dns'', Success (- 2) ''A example.com'')] \<and>
   \<not> (0::real) \<le> - 2"
  by (simp add: demo_simps set_back_env_def)

section \<open>Properties of the main program\<close>

subsection \<open>Printing\<close>

lemma bind_io_Inl: "bind_io (out, Inl ex) f = (out, Inl ex)"
  by (simp add: bind_io_def)

lemma bind_io_Inr: "bind_io (out, Inr x) f = (out @ fst (f x), snd (f x))"
  by (simp add: bind_io_def split: prod.splits)

lemma bind_io_return: "bind_io (return_io x) f = f x"
  by (simp add: return_io_def bind_io_Inr)

lemma bind_io_lift_Inr: "bind_io (lift_io (Inr x)) f = f x"
  by (simp add: lift_io_def bind_io_Inr)

lemma bind_io_lift_Inl: "bind_io (lift_io (Inl ex)) f = ([], Inl ex)"
  by (simp add: lift_io_def bind_io_Inl)

lemma bind_io_print: "bind_io (print s) f = (Stdout s # fst (f ()), snd (f ()))"
  by (simp add: print_def bind_io_Inr)

lemmas io_simps = bind_io_return bind_io_lift_Inr bind_io_lift_Inl bind_io_print

subsection \<open>The fallback palette\<close>

text \<open>The fallback class \<^verbatim>\<open>_C\<close> defines \<^verbatim>\<open>RESET\<close> and has no attribute \<^verbatim>\<open>RESET_ALL\<close>, which line 100 reads.\<close>

lemma fallback_GREEN: "getattr fallback_C ''GREEN'' = Inr []"
  by (simp add: getattr_def fallback_C_def)

lemma fallback_RESET_ALL:
  "getattr fallback_C ''RESET_ALL''
     = Inl (PyExc ''AttributeError'' (''object has no attribute '' @ quote ''RESET_ALL''))"
  by (simp add: getattr_def fallback_C_def)

lemma print_header_fallback:
  "print_header \<lparr>Fore = fallback_C, Style = fallback_C\<rparr> h a modules
     = ([], Inl (PyExc ''AttributeError'' (''object has no attribute '' @ quote ''RESET_ALL'')))"
  by (simp add: print_header_def fallback_GREEN fallback_RESET_ALL io_simps)

lemma main_fallback:
  assumes "arg_no_color a \<or> colorama h = None"
  shows "main e h a w =
     \<lparr>printed = [],
      raised = Some (PyExc ''AttributeError'' (''object has no attribute '' @ quote ''RESET_ALL'')),
      final_world = w\<rparr>"
proof -
  have "(if arg_no_color a then \<lparr>Fore = fallback_C, Style = fallback_C\<rparr> else initial_palette h)
      = \<lparr>Fore = fallback_C, Style = fallback_C\<rparr>"
    using assms by (auto simp: initial_palette_def)
  then show ?thesis by (simp add: main_def Let_def print_header_fallback)
qed

lemma main_fallback_exit:
  "arg_no_color a \<or> colorama h = None \<Longrightarrow> exit_code (main e h a w) = 1"
  by (simp add: main_fallback exit_code_def)

subsection \<open>A complete palette\<close>

lemma getattr_Some: "map_of obj name = Some v \<Longrightarrow> getattr obj name = Inr v"
  by (simp add: getattr_def)

lemma palette_complete_attrs:
  assumes "palette_complete pal"
  obtains green yellow red reset where
    "getattr (Fore pal) ''GREEN'' = Inr green" "getattr (Fore pal) ''YELLOW'' = Inr yellow"
    "getattr (Fore pal) ''RED'' = Inr red" "getattr (Style pal) ''RESET_ALL'' = Inr reset"
proof -
  from assms obtain green yellow red reset where
    "map_of (Fore pal) ''GREEN'' = Some green" "map_of (Fore pal) ''YELLOW'' = Some yellow"
    "map_of (Fore pal) ''RED'' = Some red" "map_of (Style pal) ''RESET_ALL'' = Some reset"
    unfolding palette_complete_def by auto
  then show ?thesis using that by (simp add: getattr_Some)
qed

lemma print_items_ok:
  assumes "no_color \<or> palette_complete pal"
  shows "snd (print_items pal h no_color items) = Inr () \<and>
         list_all is_stdout (fst (print_items pal h no_color items))"
proof (cases no_color)
  case True
  show ?thesis
    by (induction items) (auto simp: True io_simps bind_io_Inr return_io_def print_def)
next
  case False
  with assms have "palette_complete pal" by simp
  then obtain green yellow red reset where
    g: "getattr (Fore pal) ''YELLOW'' = Inr yellow" "getattr (Style pal) ''RESET_ALL'' = Inr reset"
    by (rule palette_complete_attrs)
  show ?thesis
    by (induction items) (auto simp: False g io_simps bind_io_Inr return_io_def print_def)
qed

lemma pretty_print_section_ok:
  assumes "no_color \<or> palette_complete pal"
  shows "snd (pretty_print_section pal h title data no_color) = Inr () \<and>
         list_all is_stdout (fst (pretty_print_section pal h title data no_color))"
proof -
  obtain c_title where c:
    "(if \<not> no_color
        then bind_io (lift_io (getattr (Fore pal) ''GREEN'')) (\<lambda>green.
             bind_io (lift_io (getattr (Style pal) ''RESET_ALL'')) (\<lambda>reset.
             return_io (green @ title @ reset)))
        else return_io title) = return_io c_title"
  proof (cases no_color)
    case True
    then show ?thesis using that by simp
  next
    case False
    with assms have "palette_complete pal" by simp
    then obtain green yellow red reset where
      "getattr (Fore pal) ''GREEN'' = Inr green" "getattr (Style pal) ''RESET_ALL'' = Inr reset"
      by (rule palette_complete_attrs)
    then show ?thesis using that False by (simp add: io_simps)
  qed
  have items: "snd (print_items pal h no_color its) = Inr () \<and>
         list_all is_stdout (fst (print_items pal h no_color its))" for its
    using assms by (rule print_items_ok)
  show ?thesis
    unfolding pretty_print_section_def c
    by (auto simp: io_simps bind_io_Inr items print_def return_io_def split: sum.splits option.splits)
qed

lemma render_one_ok:
  assumes "no_color \<or> palette_complete pal"
  shows "snd (render_one pal h no_color res m) = Inr () \<and>
         list_all is_stdout (fst (render_one pal h no_color res m))"
  unfolding render_one_def
  by (cases "results_get res m") (simp_all add: pretty_print_section_ok[OF assms])

lemma render_results_ok:
  assumes "no_color \<or> palette_complete pal"
  shows "render_results pal h no_color res modules
       = (concat (map (\<lambda>m. fst (render_one pal h no_color res m)) modules), Inr ())"
proof (induction modules)
  case Nil
  show ?case by (simp add: return_io_def)
next
  case (Cons m modules)
  have "snd (render_one pal h no_color res m) = Inr ()"
    using render_one_ok[OF assms, of h res m] by (rule conjunct1)
  then have "render_one pal h no_color res m = (fst (render_one pal h no_color res m), Inr ())"
    by (cases "render_one pal h no_color res m") simp
  then have "bind_io (render_one pal h no_color res m)
        (\<lambda>_. render_results pal h no_color res modules)
      = (fst (render_one pal h no_color res m) @ fst (render_results pal h no_color res modules),
         snd (render_results pal h no_color res modules))"
    using bind_io_Inr[of "fst (render_one pal h no_color res m)" "()"
        "\<lambda>_. render_results pal h no_color res modules"]
    by simp
  then show ?case by (simp add: Cons.IH)
qed


lemma print_header_ok:
  assumes "palette_complete pal"
  shows "snd (print_header pal h a modules) = Inr () \<and>
         list_all is_stdout (fst (print_header pal h a modules))"
proof -
  from assms obtain green yellow red reset where
    "getattr (Fore pal) ''GREEN'' = Inr green" "getattr (Style pal) ''RESET_ALL'' = Inr reset"
    by (rule palette_complete_attrs)
  then show ?thesis
    by (simp add: print_header_def io_simps bind_io_Inr print_def return_io_def)
qed

lemma report_failure_ok:
  assumes "palette_complete pal"
  shows "\<exists>red reset. report_failure pal ex
      = ([Stderr (red @ ''Failed to write output file: '' @ exc_str ex @ reset)], Inr ())"
proof -
  from assms obtain green yellow red reset where
    "getattr (Fore pal) ''RED'' = Inr red" "getattr (Style pal) ''RESET_ALL'' = Inr reset"
    by (rule palette_complete_attrs)
  then have "report_failure pal ex
      = ([Stderr (red @ ''Failed to write output file: '' @ exc_str ex @ reset)], Inr ())"
    by (simp add: report_failure_def io_simps print_stderr_def)
  then show ?thesis by (intro exI[of _ red] exI[of _ reset])
qed

text \<open>What the optional write prints: nothing, one line of confirmation, or one line
  on the error stream.\<close>

lemma write_output_ok:
  assumes "palette_complete pal"
  shows "snd (fst (write_output pal h a modules res w)) = Inr () \<and>
         (fst (fst (write_output pal h a modules res w)) = [] \<or>
          (\<exists>s. fst (fst (write_output pal h a modules res w)) = [Stdout s]) \<or>
          (\<exists>red reset ex. fst (fst (write_output pal h a modules res w))
              = [Stderr (red @ ''Failed to write output file: '' @ exc_str ex @ reset)]))"
proof -
  let ?P = "\<lambda>x :: unit io \<times> 'c. snd (fst x) = Inr () \<and>
         (fst (fst x) = [] \<or> (\<exists>s. fst (fst x) = [Stdout s]) \<or>
          (\<exists>red reset ex. fst (fst x)
              = [Stderr (red @ ''Failed to write output file: '' @ exc_str ex @ reset)]))"
  have fail: "?P (report_failure pal ex, w')" for ex w'
  proof -
    from report_failure_ok[OF assms, of ex] obtain red reset where
      "report_failure pal ex
        = ([Stderr (red @ ''Failed to write output file: '' @ exc_str ex @ reset)], Inr ())"
      by (elim exE)
    then have "snd (report_failure pal ex) = Inr ()"
      and "\<exists>red reset ex'. fst (report_failure pal ex)
          = [Stderr (red @ ''Failed to write output file: '' @ exc_str ex' @ reset)]"
      by (simp, intro exI[of _ red] exI[of _ reset] exI[of _ ex], simp)
    then show ?thesis by simp
  qed
  have none: "?P (return_io (), w')" for w' by (simp add: return_io_def)
  have ok: "?P (print s, w')" for s w' by (simp add: print_def)
  have "?P (write_output pal h a modules res w)"
  proof (cases "arg_output a")
    case None
    then have "write_output pal h a modules res w = (return_io (), w)"
      by (simp add: write_output_def)
    then show ?thesis using none[of w] by simp
  next
    case (Some path)
    show ?thesis
    proof (cases "path = []")
      case True
      with Some have "write_output pal h a modules res w = (return_io (), w)"
        by (simp add: write_output_def)
      then show ?thesis using none[of w] by simp
    next
      case False
      obtain r w' where jd: "json_dump h path
          \<lparr>doc_target = arg_target a, doc_modules = modules, doc_results = res\<rparr> w = (r, w')"
        by (cases "json_dump h path
          \<lparr>doc_target = arg_target a, doc_modules = modules, doc_results = res\<rparr> w")
      show ?thesis
      proof (cases r)
        case (Some ex)
        with \<open>arg_output a = Some path\<close> False jd
        have "write_output pal h a modules res w = (report_failure pal ex, w')"
          by (simp add: write_output_def)
        then show ?thesis using fail[of ex w'] by simp
      next
        case None
        show ?thesis
        proof (cases "resolve h path")
          case (Inl ex)
          with \<open>arg_output a = Some path\<close> False jd None
          have "write_output pal h a modules res w = (report_failure pal ex, w')"
            by (simp add: write_output_def)
          then show ?thesis using fail[of ex w'] by simp
        next
          case (Inr full)
          with \<open>arg_output a = Some path\<close> False jd None
          have "write_output pal h a modules res w
              = (print (''\<newline>Report written to '' @ full), w')"
            by (simp add: write_output_def)
          then show ?thesis using ok[of "''\<newline>Report written to '' @ full" w'] by simp
        qed
      qed
    qed
  qed
  then show ?thesis .
qed

lemma main_completes:
  assumes "\<not> arg_no_color a" "colorama h = Some pal" "palette_complete pal"
  shows "raised (main e h a w) = None \<and>
         exit_code (main e h a w) = 0 \<and>
         printed (main e h a w) =
           fst (print_header pal h a (parse_modules (arg_modules a))) @
           concat (map (\<lambda>m. fst (render_one pal h False
                  (results (run_modules e (arg_target a) (parse_modules (arg_modules a)) a w)) m))
               (parse_modules (arg_modules a))) @
           fst (fst (write_output pal h a (parse_modules (arg_modules a))
                  (results (run_modules e (arg_target a) (parse_modules (arg_modules a)) a w))
                  (world (run_modules e (arg_target a) (parse_modules (arg_modules a)) a w))))"
proof -
  let ?modules = "parse_modules (arg_modules a)"
  let ?R = "run_modules e (arg_target a) ?modules a w"
  have nc: "arg_no_color a = False" using assms(1) by simp
  have pal: "initial_palette h = pal" using assms(2) by (simp add: initial_palette_def)
  have "snd (print_header pal h a ?modules) = Inr ()"
    using print_header_ok[OF assms(3), of h a ?modules] by (rule conjunct1)
  then obtain out1 where hd: "print_header pal h a ?modules = (out1, Inr ())"
    by (cases "print_header pal h a ?modules") simp
  have rr: "render_results pal h False (results ?R) ?modules
       = (concat (map (\<lambda>m. fst (render_one pal h False (results ?R) m)) ?modules), Inr ())"
    using assms(3) by (intro render_results_ok) simp
  have "snd (fst (write_output pal h a ?modules (results ?R) (world ?R))) = Inr ()"
    using write_output_ok[OF assms(3), of h a ?modules "results ?R" "world ?R"] by (rule conjunct1)
  then obtain out3 w' where wo: "write_output pal h a ?modules (results ?R) (world ?R)
      = ((out3, Inr ()), w')"
    by (cases "write_output pal h a ?modules (results ?R) (world ?R)") auto
  have m: "main e h a w =
     \<lparr>printed = out1 @
         concat (map (\<lambda>m. fst (render_one pal h False (results ?R) m)) ?modules) @ out3,
      raised = None, final_world = w'\<rparr>"
    by (simp add: main_def nc pal Let_def hd rr wo)
  show ?thesis unfolding m by (simp add: exit_code_def hd wo)
qed

lemma demo_palette_complete: "palette_complete demo_palette"
  by (simp add: palette_complete_def demo_palette_def)





text \<open>
  On a host where the colour library is installed, and without \<^verbatim>\<open>--no-color\<close>, the
  program returns with exit status 0 whatever the modules did. Everything it prints
  before the optional write goes to the standard output, and the one line that can go
  to the error stream is the last: the report of a failed write.
\<close>

theorem main_reports_only_write_failure:
  assumes "\<not> arg_no_color a" "colorama h = Some pal" "palette_complete pal"
  shows "exit_code (main e h a w) = 0 \<and>
         (\<exists>out tail. printed (main e h a w) = out @ tail \<and> list_all is_stdout out \<and>
            (tail = [] \<or> (\<exists>s. tail = [Stdout s]) \<or>
             (\<exists>red reset ex.
                tail = [Stderr (red @ ''Failed to write output file: '' @ exc_str ex @ reset)])))"
proof -
  let ?modules = "parse_modules (arg_modules a)"
  let ?R = "run_modules e (arg_target a) ?modules a w"
  let ?out1 = "fst (print_header pal h a ?modules)"
  let ?out2 = "concat (map (\<lambda>m. fst (render_one pal h False (results ?R) m)) ?modules)"
  let ?tail = "fst (fst (write_output pal h a ?modules (results ?R) (world ?R)))"
  note mc = main_completes[OF assms, of e w]
  from mc have ex: "exit_code (main e h a w) = 0" by simp
  from mc have pr: "printed (main e h a w) = (?out1 @ ?out2) @ ?tail" by simp
  have o1: "list_all is_stdout ?out1"
    using print_header_ok[OF assms(3), of h a ?modules] by (rule conjunct2)
  have "list_all is_stdout (fst (render_one pal h False (results ?R) m))" for m
    using render_one_ok[of False pal h "results ?R" m] assms(3) by simp
  then have o2: "list_all is_stdout ?out2"
    by (induction ?modules) (simp_all add: list_all_iff)
  from o1 o2 have o: "list_all is_stdout (?out1 @ ?out2)" by simp
  have t: "?tail = [] \<or> (\<exists>s. ?tail = [Stdout s]) \<or>
      (\<exists>red reset ex. ?tail = [Stderr (red @ ''Failed to write output file: '' @ exc_str ex @ reset)])"
    using write_output_ok[OF assms(3), of h a ?modules "results ?R" "world ?R"] by (rule conjunct2)
  from pr o t have "\<exists>out tail. printed (main e h a w) = out @ tail \<and> list_all is_stdout out \<and>
            (tail = [] \<or> (\<exists>s. tail = [Stdout s]) \<or>
             (\<exists>red reset ex.
                tail = [Stderr (red @ ''Failed to write output file: '' @ exc_str ex @ reset)]))"
    by (intro exI[of _ "?out1 @ ?out2"] exI[of _ ?tail] conjI)
  with ex show ?thesis by (rule conjI)
qed

text \<open>On the concrete installation, with its default arguments.\<close>

theorem main_reports_only_write_failure_witness:
  "\<not> arg_no_color demo_args \<and> colorama demo_host = Some demo_palette \<and>
   palette_complete demo_palette \<and>
   exit_code (main demo_env demo_host demo_args 0) = 0 \<and>
   (\<exists>out tail. printed (main demo_env demo_host demo_args 0) = out @ tail \<and>
      list_all is_stdout out \<and>
      (tail = [] \<or> (\<exists>s. tail = [Stdout s]) \<or>
       (\<exists>red reset ex.
          tail = [Stderr (red @ ''Failed to write output file: '' @ exc_str ex @ reset)])))"
proof -
  have n: "\<not> arg_no_color demo_args" by (simp add: demo_args_def)
  have c: "colorama demo_host = Some demo_palette" by (simp add: demo_host_def)
  note th = main_reports_only_write_failure[OF n c demo_palette_complete, of demo_env 0]
  from th have 1: "exit_code (main demo_env demo_host demo_args 0) = 0" by (rule conjunct1)
  from th have 2: "\<exists>out tail. printed (main demo_env demo_host demo_args 0) = out @ tail \<and>
      list_all is_stdout out \<and>
      (tail = [] \<or> (\<exists>s. tail = [Stdout s]) \<or>
       (\<exists>red reset ex.
          tail = [Stderr (red @ ''Failed to write output file: '' @ exc_str ex @ reset)]))"
    by (rule conjunct2)
  show ?thesis by (intro conjI n c demo_palette_complete 1 2)
qed

text \<open>The program on the concrete installation, from the first line printed to the last.\<close>

lemma demo_main:
  "main demo_env demo_host (demo_args\<lparr>arg_modules := ''dns, bogus''\<rparr>) 0 =
    \<lparr>printed =
      [Stdout (CHR 0x1B # ''[32m'' @ ''\<newline>=== ReconX v1.0 ===\<newline>'' @ CHR 0x1B # ''[0m''),
       Stdout ''Target: example.com'',
       Stdout ''Modules: dns, bogus'',
       Stdout ''Timeout: 3.0s\<newline>'',
       Stdout [],
       Stdout (CHR 0x1B # ''[32m'' @ ''[dns] (elapsed: ?s)'' @ CHR 0x1B # ''[0m''),
       Stdout ''-------------------'',
       Stdout ''A example.com'',
       Stdout [],
       Stdout (CHR 0x1B # ''[32m'' @ ''[bogus] ERROR'' @ CHR 0x1B # ''[0m''),
       Stdout ''-------------'',
       Stdout (''Unknown module '' @ quote ''bogus'')],
     raised = None, final_world = 5\<rparr>"
  by (simp add: main_def demo_simps demo_host_def demo_palette_def initial_palette_def
      parse_modules_def print_header_def getattr_def io_simps bind_io_Inr print_def return_io_def lift_io_def
      render_one_def results_get_def pretty_print_section_def write_output_def)

text \<open>
  Claim C9, the exit status. With \<^verbatim>\<open>--no-color\<close> the program binds \<^verbatim>\<open>Style\<close> to the
  fallback class and reads \<^verbatim>\<open>Style.RESET_ALL\<close> at line 100: the \<^verbatim>\<open>AttributeError\<close> leaves
  \<^verbatim>\<open>main\<close> before anything is printed and before any module is handled, and the exit
  status is 1. On a host with the colour library and without \<^verbatim>\<open>--no-color\<close> the
  program returns with status 0, as shown above.
\<close>

theorem no_color_run_crashes:
  "main demo_env demo_host (demo_args\<lparr>arg_no_color := True\<rparr>) 0 =
     \<lparr>printed = [],
      raised = Some (PyExc ''AttributeError'' (''object has no attribute '' @ quote ''RESET_ALL'')),
      final_world = 0\<rparr> \<and>
   exit_code (main demo_env demo_host (demo_args\<lparr>arg_no_color := True\<rparr>) 0) = 1"
  by (simp add: main_def Let_def demo_args_def print_header_def getattr_def fallback_C_def
      lift_io_def bind_io_def exit_code_def)

end
